theory Spec2Isabelle
  imports Main "HOL-Library.Sublist"
begin

section \<open>Exceptions\<close>

text \<open>
  The source never raises by itself: every exception comes out of a call into a driver
  (sensor, socket, radio). The handlers of \<^verbatim>\<open>main.py\<close> tell three classes apart:
  \<^verbatim>\<open>OSError\<close> with its \<^verbatim>\<open>errno\<close>, any other subclass of \<^verbatim>\<open>Exception\<close>
  (\<^verbatim>\<open>IndexError\<close>, \<^verbatim>\<open>NameError\<close>, \<^verbatim>\<open>MemoryError\<close>, ...), and \<^verbatim>\<open>KeyboardInterrupt\<close>,
  which derives from \<^verbatim>\<open>BaseException\<close> and is therefore not caught by
  \<^verbatim>\<open>except Exception\<close>. The interrupt too is taken to surface at a call into a driver,
  where the program blocks.
\<close>

datatype exn = OSError int | OtherException | KeyboardInterrupt

section \<open>Observable effects\<close>

text \<open>
  Every call into a driver and every \<^verbatim>\<open>print\<close> of the modelled functions is an event, in
  program order. \<open>Print\<close> carries the literal text of the message; a value formatted into
  the message is kept only where it is a string of the model. \<open>PrintExn\<close> is
  \<^verbatim>\<open>print(label, e)\<close>. A call that raises still appears as an event: the call was made.
\<close>

datatype event =
    Print string
  | PrintExn string exn
  | Sleep nat
  | DrawText int int string
  | WlanDisconnect
  | WlanConnect string string
  | WlanStatus int
  | WlanIsConnected bool
  | WlanIfconfig
  | WlanActive bool
  | GetAddrInfo
  | SocketCreate
  | SetSockOpt
  | Bind nat
  | Listen nat
  | ServerSetTimeout nat
  | ServerAccept
  | ServerClose
  | ConnSetTimeout nat nat
  | Recv nat nat
  | Send nat string
  | SendAll nat string
  | ConnClose nat

section \<open>The Reading Set and the sensor\<close>

text \<open>The three module-level globals \<^verbatim>\<open>temperature\<close>, \<^verbatim>\<open>pressure\<close>, \<^verbatim>\<open>humidity\<close>.\<close>

record reading_set =
  temperature :: string
  pressure :: string
  humidity :: string

text \<open>Lines 62 to 64: the globals start as empty strings.\<close>

definition initial_readings :: reading_set where
  "initial_readings = \<lparr>temperature = [], pressure = [], humidity = []\<rparr>"

text \<open>
  One sensor transaction as the code performs it: the constructor
  \<^verbatim>\<open>bme280.BME280(i2c=i2c)\<close>, then three separate reads of the property \<^verbatim>\<open>bme.values\<close>,
  the read number \<open>k\<close> being subscripted with \<open>k\<close>. The driver is outside the repository:
  its behaviour is an input, the outcome of the constructor and of each read.
\<close>

record sensor_tx =
  bme_init :: "exn option"
  bme_values :: "nat \<Rightarrow> exn + string list"

text \<open>Python's subscript on a sequence: out of range raises \<^verbatim>\<open>IndexError\<close>.\<close>

definition subscript :: "string list \<Rightarrow> nat \<Rightarrow> exn + string" where
  "subscript xs k = (if k < length xs then Inr (xs ! k) else Inl OtherException)"

definition read_value :: "sensor_tx \<Rightarrow> nat \<Rightarrow> exn + string" where
  "read_value tx k = (case bme_values tx k of Inl e \<Rightarrow> Inl e | Inr xs \<Rightarrow> subscript xs k)"

text \<open>
  The body of the \<^verbatim>\<open>try\<close> in \<^verbatim>\<open>refresh_weatherData\<close>: the globals are assigned one by
  one, so the state returned with an exception may already hold some fresh values.
\<close>

definition refresh_body :: "sensor_tx \<Rightarrow> reading_set \<Rightarrow> exn option \<times> reading_set" where
  "refresh_body tx rs =
     (case bme_init tx of
        Some e \<Rightarrow> (Some e, rs)
      | None \<Rightarrow>
         (case read_value tx 0 of
            Inl e \<Rightarrow> (Some e, rs)
          | Inr t \<Rightarrow>
             let rs1 = rs\<lparr>temperature := t\<rparr> in
             (case read_value tx 1 of
                Inl e \<Rightarrow> (Some e, rs1)
              | Inr p \<Rightarrow>
                 let rs2 = rs1\<lparr>pressure := p\<rparr> in
                 (case read_value tx 2 of
                    Inl e \<Rightarrow> (Some e, rs2)
                  | Inr h \<Rightarrow> (None, rs2\<lparr>humidity := h\<rparr>)))))"

text \<open>The bare \<^verbatim>\<open>except:\<close> catches every exception and overwrites all three globals.\<close>

definition refresh_weatherData :: "sensor_tx \<Rightarrow> reading_set \<Rightarrow> reading_set" where
  "refresh_weatherData tx rs =
     (case refresh_body tx rs of
        (None, rs') \<Rightarrow> rs'
      | (Some e, rs') \<Rightarrow> rs'\<lparr>temperature := ''n/a'', pressure := ''n/a'', humidity := ''n/a''\<rparr>)"

section \<open>The page\<close>

definition dq :: string where
  "dq = [CHR 0x22]"

definition sq :: string where
  "sq = [CHR 0x27]"

text \<open>The four literal pieces of the template of \<^verbatim>\<open>web_page\<close>, line by line.\<close>

definition page_head :: string where
  "page_head =
     ''\<newline>''
   @ ''<html>\<newline>''
   @ ''<head>\<newline>''
   @ ''    <meta name='' @ dq @ ''viewport'' @ dq @ '' content='' @ dq @ ''width=device-width, initial-scale=1'' @ dq @ ''>\<newline>''
   @ ''    <link rel='' @ dq @ ''icon'' @ dq @ '' href='' @ dq @ ''data:,'' @ dq @ ''>\<newline>''
   @ ''    <style>\<newline>''
   @ ''        body { text-align: center; font-family: '' @ dq @ ''Helvetica'' @ dq @ '', Arial;}\<newline>''
   @ ''        table { border-collapse: collapse; width:55%; margin-left:auto; margin-right:auto; }\<newline>''
   @ ''        th { padding: 12px; background-color: #87034F; color: white; }\<newline>''
   @ ''        tr { border: 2px solid #000556; padding: 12px; }\<newline>''
   @ ''        tr:hover { background-color: #bcbcbc; }\<newline>''
   @ ''        td { border: none; padding: 14px; }\<newline>''
   @ ''        .sensor { color:DarkBlue; font-weight: bold; background-color: #ffffff; padding: 1px;  \<newline>''
   @ ''        \<newline>''
   @ ''        img{display: block; margin-left: auto; margin-right: auto;}\<newline>''
   @ ''    </style>\<newline>''
   @ ''    <meta http-equiv='' @ dq @ ''refresh'' @ dq @ '' content='' @ dq @ ''60'' @ dq @ ''>\<newline>''
   @ ''    <meta name='' @ dq @ ''viewport'' @ dq @ '' content='' @ dq @ ''width=device-width, initial-scale=1'' @ dq @ ''>\<newline>''
   @ ''</head>\<newline>''
   @ ''<body>\<newline>''
   @ ''    <h1>\<newline>''
   @ ''        Welcome to Evan'' @ sq @ ''s Weather Station\<newline>''
   @ ''    </h1>\<newline>''
   @ ''    Want to know the temperature, check it here! <br>\<newline>''
   @ ''    <br>\<newline>''
   @ ''    \<newline>''
   @ ''    <img src='' @ dq @ ''https://static.wikia.nocookie.net/legobatman/images/a/af/Batman1_Robin.png'' @ dq @ '' height='' @ dq @ ''200'' @ dq @ '' />\<newline>''
   @ ''\<newline>''
   @ ''    <table>\<newline>''
   @ ''    <tr>\<newline>''
   @ ''        <th>Parameters</th><th>Value</th>\<newline>''
   @ ''    </tr>\<newline>''
   @ ''    <tr>\<newline>''
   @ ''        <td>\<newline>''
   @ ''            Temperature\<newline>''
   @ ''        </td>\<newline>''
   @ ''        <td>\<newline>''
   @ ''            <span class='' @ dq @ ''sensor'' @ dq @ ''>''"

definition page_mid1 :: string where
  "page_mid1 =
     ''</span>\<newline>''
   @ ''        </td>\<newline>''
   @ ''    </tr>\<newline>''
   @ ''    <tr>\<newline>''
   @ ''        <td>\<newline>''
   @ ''            Pressure</td><td><span class='' @ dq @ ''sensor'' @ dq @ ''>''"

definition page_mid2 :: string where
  "page_mid2 =
     ''</span>\<newline>''
   @ ''        </td>\<newline>''
   @ ''    </tr>\<newline>''
   @ ''    <tr>\<newline>''
   @ ''        <td>Humidity</td>\<newline>''
   @ ''        <td><span class='' @ dq @ ''sensor'' @ dq @ ''>''"

definition page_tail :: string where
  "page_tail =
     ''</span></td>\<newline>''
   @ ''    </tr> \<newline>''
   @ ''    </table>\<newline>''
   @ ''</body>\<newline>''
   @ ''</html>''"

definition web_page :: "reading_set \<Rightarrow> string" where
  "web_page rs =
     page_head @ temperature rs @ page_mid1 @ pressure rs @ page_mid2 @ humidity rs @ page_tail"

text \<open>What the page is expected to contain: the refresh tag and the value cells.\<close>

definition meta_refresh :: string where
  "meta_refresh =
     ''<meta http-equiv='' @ dq @ ''refresh'' @ dq @ '' content='' @ dq @ ''60'' @ dq @ ''>''"

definition sensor_cell :: "string \<Rightarrow> string" where
  "sensor_cell v = ''<span class='' @ dq @ ''sensor'' @ dq @ ''>'' @ v @ ''</span>''"

text \<open>The three data rows of the table, from \<^verbatim>\<open><tr>\<close> to \<^verbatim>\<open></tr>\<close>, as the template lays them out.\<close>

definition row_temperature :: "string \<Rightarrow> string" where
  "row_temperature v =
     ''    <tr>\<newline>''
   @ ''        <td>\<newline>''
   @ ''            Temperature\<newline>''
   @ ''        </td>\<newline>''
   @ ''        <td>\<newline>''
   @ ''            '' @ sensor_cell v @ ''\<newline>''
   @ ''        </td>\<newline>''
   @ ''    </tr>\<newline>''"

definition row_pressure :: "string \<Rightarrow> string" where
  "row_pressure v =
     ''    <tr>\<newline>''
   @ ''        <td>\<newline>''
   @ ''            Pressure</td><td>'' @ sensor_cell v @ ''\<newline>''
   @ ''        </td>\<newline>''
   @ ''    </tr>\<newline>''"

definition row_humidity :: "string \<Rightarrow> string" where
  "row_humidity v =
     ''    <tr>\<newline>''
   @ ''        <td>Humidity</td>\<newline>''
   @ ''        <td>'' @ sensor_cell v @ ''</td>\<newline>''
   @ ''    </tr> \<newline>''"

section \<open>The display\<close>

text \<open>
  \<^verbatim>\<open>dprint\<close> forwards to \<^verbatim>\<open>display.draw_text(y, 320-x, msg, ...)\<close>; fonts and colours
  play no part in the control flow and are left out. Drawing is taken not to raise.
\<close>

definition dprint :: "int \<Rightarrow> int \<Rightarrow> string \<Rightarrow> event" where
  "dprint x y msg = DrawText y (320 - x) msg"

definition display_weatherData :: "sensor_tx \<Rightarrow> reading_set \<Rightarrow> reading_set \<times> event list" where
  "display_weatherData tx rs =
     (let rs' = refresh_weatherData tx rs in
      (rs', [Print ''updating display...'',
             dprint 175 65 (temperature rs' @ ''  ''),
             dprint 175 107 (pressure rs' @ ''  ''),
             dprint 175 150 (humidity rs' @ ''  '')]))"

section \<open>Joining a network\<close>




text \<open>
  The \<^verbatim>\<open>while\<close> of line 178. Its condition calls \<^verbatim>\<open>wlan.status()\<close> twice (the second
  call only when the first answer is not negative), the body once more for the message;
  \<open>k\<close> counts the calls of this try, \<open>wait\<close> is the loop counter. One pass of the body is
  one poll: the status is reported and the loop sleeps one second.
\<close>

function wait_loop :: "(nat \<Rightarrow> int) \<Rightarrow> nat \<Rightarrow> nat \<Rightarrow> nat \<times> event list" where
  "wait_loop st k wait =
     (if 0 \<le> st k then
        (if st (k + 1) < 3 then
           (if wait < 10 then
              (case wait_loop st (k + 3) (wait + 1) of
                 (k', ev) \<Rightarrow>
                   (k', [WlanStatus (st k), WlanStatus (st (k + 1)), WlanStatus (st (k + 2)),
                         Print ''waiting for connection... status = '', Sleep 1] @ ev))
            else (k + 2, [WlanStatus (st k), WlanStatus (st (k + 1))]))
         else (k + 2, [WlanStatus (st k), WlanStatus (st (k + 1))]))
      else (k + 1, [WlanStatus (st k)]))"
  by pat_completeness auto
termination
  by (relation "measure (\<lambda>(st, k, wait). 10 - wait)") auto








fun is_status :: "event \<Rightarrow> bool" where
  "is_status (WlanStatus v) = True"
| "is_status e = False"





section \<open>The service loop\<close>

text \<open>
  What one pass of the \<^verbatim>\<open>while stay_in_loop\<close> of \<^verbatim>\<open>run_display_and_webserver\<close> meets:
  the outcome of each socket call it may make, and of the sensor transaction that a
  display refresh would run. A connection is a number. \<open>close_r\<close> is the
  \<^verbatim>\<open>conn.close()\<close> of line 286, \<open>handler_close_r\<close> the one of line 298.
\<close>

record iteration =
  accept_r :: "exn + nat"
  settimeout_r :: "exn option"
  recv_r :: "exn + string"
  send_r :: "exn option"
  sendall_r :: "exn option"
  close_r :: "exn option"
  handler_close_r :: "exn option"
  sensor :: sensor_tx

text \<open>
  The state the loop carries: the Reading Set and the local \<^verbatim>\<open>conn\<close>, unbound until the
  first \<^verbatim>\<open>accept\<close> returns and bound to the last accepted connection afterwards.
\<close>

record state =
  readings :: reading_set
  conn :: "nat option"

definition http_header :: string where
  "http_header =
     ''HTTP/1.1 200 OK'' @ [CHR 0x0D, CHR 0x0A] @ ''Content-type: text/html''
     @ [CHR 0x0D, CHR 0x0A] @ [CHR 0x0D, CHR 0x0A]"

text \<open>
  Lines 265 to 286, the body of the outer \<^verbatim>\<open>try\<close>. The inner \<^verbatim>\<open>try\<close> around
  \<^verbatim>\<open>conn.recv\<close> has a bare \<^verbatim>\<open>except:\<close>, so no outcome of \<open>recv_r\<close> leaves the body.
\<close>

definition serve_body :: "iteration \<Rightarrow> state \<Rightarrow> exn option \<times> state \<times> event list" where
  "serve_body it s =
     (let ev0 = [Print ''waiting for connection...'', ServerAccept] in
      case accept_r it of
        Inl e \<Rightarrow> (Some e, s, ev0)
      | Inr c \<Rightarrow>
         let s1 = s\<lparr>conn := Some c\<rparr>;
             ev1 = ev0 @ [Print ''connection from '', ConnSetTimeout c 3] in
         (case settimeout_r it of
            Some e \<Rightarrow> (Some e, s1, ev1)
          | None \<Rightarrow>
             let ev2 = ev1 @ [Print ''receiving request...'', Recv c 1024]
                       @ (case recv_r it of
                            Inl e \<Rightarrow> [Print ''receiving request timed out'']
                          | Inr request \<Rightarrow> [Print request]);
                 returnHTML = web_page (readings s1);
                 ev3 = ev2 @ [Print ''getting web page'', Print (take 100 returnHTML),
                              Print ''sending header...'', Send c http_header] in
             (case send_r it of
                Some e \<Rightarrow> (Some e, s1, ev3)
              | None \<Rightarrow>
                 let ev4 = ev3 @ [Print ''sending html...'', SendAll c returnHTML] in
                 (case sendall_r it of
                    Some e \<Rightarrow> (Some e, s1, ev4)
                  | None \<Rightarrow>
                     let ev5 = ev4 @ [Print ''closing connection'', ConnClose c] in
                     (case close_r it of
                        Some e \<Rightarrow> (Some e, s1, ev5)
                      | None \<Rightarrow> (None, s1, ev5))))))"

text \<open>
  How one pass of the loop ends: the loop goes on, \<^verbatim>\<open>stay_in_loop\<close> was cleared, or an
  exception leaves the function.
\<close>

datatype outcome = Continue | Stop | Raise exn

text \<open>
  One pass with its handlers, in the order of the source: \<^verbatim>\<open>except OSError\<close>, then
  \<^verbatim>\<open>except Exception\<close>, then \<^verbatim>\<open>except KeyboardInterrupt\<close>. An exception raised inside a
  handler is not handled by its siblings: the \<^verbatim>\<open>conn.close()\<close> of line 298 raises
  \<^verbatim>\<open>NameError\<close> when \<^verbatim>\<open>conn\<close> is still unbound, or whatever the socket raises. The
  assignment to \<^verbatim>\<open>keepListening\<close> of line 305 is never read.
\<close>

definition loop_iteration :: "iteration \<Rightarrow> state \<Rightarrow> outcome \<times> state \<times> event list" where
  "loop_iteration it s =
     (case serve_body it s of
        (None, s1, ev) \<Rightarrow> (Continue, s1, ev)
      | (Some (OSError errno), s1, ev) \<Rightarrow>
          if errno = 110
          then (case display_weatherData (sensor it) (readings s1) of
                  (rs', dev) \<Rightarrow> (Continue, s1\<lparr>readings := rs'\<rparr>, ev @ dev))
          else (Continue, s1, ev @ [PrintExn ''OSError'' (OSError errno)])
      | (Some OtherException, s1, ev) \<Rightarrow>
          let ev' = ev @ [PrintExn ''Exception'' OtherException] in
          (case conn s1 of
             None \<Rightarrow> (Raise OtherException, s1, ev')
           | Some c \<Rightarrow>
              (case handler_close_r it of
                 Some e \<Rightarrow> (Raise e, s1, ev' @ [ConnClose c])
               | None \<Rightarrow> (Continue, s1, ev' @ [ConnClose c, Print ''connection closed''])))
      | (Some KeyboardInterrupt, s1, ev) \<Rightarrow>
          (Stop, s1, ev @ [Print ''KeyboardInterrupt'', Print ''connection closed'']))"

text \<open>
  The \<^verbatim>\<open>while\<close> itself, driven by the passes the environment provides. When they run out
  with the loop still going the result is \<open>Continue\<close>: the program is waiting in
  \<^verbatim>\<open>accept\<close>.
\<close>

fun service_loop :: "iteration list \<Rightarrow> state \<Rightarrow> outcome \<times> state \<times> event list" where
  "service_loop [] s = (Continue, s, [])"
| "service_loop (it # its) s =
     (case loop_iteration it s of
        (Continue, s1, ev) \<Rightarrow>
          (case service_loop its s1 of (out, s2, ev') \<Rightarrow> (out, s2, ev @ ev'))
      | (out, s1, ev) \<Rightarrow> (out, s1, ev))"

text \<open>Lines 309 to 317, after the loop. The calls are taken not to raise.\<close>

definition shutdown :: "event list" where
  "shutdown =
     [Print ''closing server...'', ServerClose, Sleep 1,
      Print ''disconnecting wifi...'', WlanDisconnect, Sleep 1,
      Print ''cleaning up...'', WlanActive False,
      Print ''web server ended.'']"

text \<open>Lines 249 to 262, before the loop. The calls are taken not to raise.\<close>

definition server_setup :: "event list" where
  "server_setup =
     [Print ''launching web server...'', GetAddrInfo, SocketCreate, SetSockOpt, Bind 80,
      Listen 5, Print ''listening on'', ServerSetTimeout 30]"

datatype result = Returned | Raised exn | Running

definition run_display_and_webserver ::
    "sensor_tx \<Rightarrow> iteration list \<Rightarrow> reading_set \<Rightarrow> result \<times> reading_set \<times> event list" where
  "run_display_and_webserver tx0 its rs =
     (case display_weatherData tx0 rs of (rs1, dev) \<Rightarrow>
      (case service_loop its \<lparr>readings = rs1, conn = None\<rparr> of
         (Stop, s, ev) \<Rightarrow> (Returned, readings s, dev @ server_setup @ ev @ shutdown)
       | (Raise e, s, ev) \<Rightarrow> (Raised e, readings s, dev @ server_setup @ ev)
       | (Continue, s, ev) \<Rightarrow> (Running, readings s, dev @ server_setup @ ev)))"

text \<open>Reading a trace of the server: the calls on sockets and on the radio.\<close>

fun is_device_call :: "event \<Rightarrow> bool" where
  "is_device_call (ConnSetTimeout c t) = True"
| "is_device_call (Recv c n) = True"
| "is_device_call (Send c x) = True"
| "is_device_call (SendAll c x) = True"
| "is_device_call (ConnClose c) = True"
| "is_device_call ServerAccept = True"
| "is_device_call ServerClose = True"
| "is_device_call WlanDisconnect = True"
| "is_device_call (WlanActive b) = True"
| "is_device_call e = False"

definition device_calls :: "event list \<Rightarrow> event list" where
  "device_calls es = filter is_device_call es"


text \<open>The data handed to \<^verbatim>\<open>conn.send\<close> and \<^verbatim>\<open>conn.sendall\<close>, in order.\<close>

fun payloads :: "event list \<Rightarrow> string list" where
  "payloads [] = []"
| "payloads (Send c x # es) = x # payloads es"
| "payloads (SendAll c x # es) = x # payloads es"
| "payloads (e # es) = payloads es"

text \<open>
  The events of a pass of the loop from \<^verbatim>\<open>accept\<close> to the \<^verbatim>\<open>conn.send\<close> of the header
  (lines 265 to 282), for the connection \<open>c\<close> and the Reading Set \<open>rs\<close>.
\<close>

definition served :: "iteration \<Rightarrow> nat \<Rightarrow> reading_set \<Rightarrow> event list" where
  "served it c rs =
     [Print ''waiting for connection...'', ServerAccept, Print ''connection from '',
      ConnSetTimeout c 3, Print ''receiving request...'', Recv c 1024]
     @ (case recv_r it of
          Inl e \<Rightarrow> [Print ''receiving request timed out'']
        | Inr request \<Rightarrow> [Print request])
     @ [Print ''getting web page'', Print (take 100 (web_page rs)),
        Print ''sending header...'', Send c http_header]"

text \<open>
  The handlers of the outer \<^verbatim>\<open>try\<close> on their own: what they return for the exception
  \<open>r\<close> (if any) that left the body in state \<open>s1\<close>, and the events they add.
\<close>

definition handled ::
    "iteration \<Rightarrow> exn option \<Rightarrow> state \<Rightarrow> outcome \<times> state \<times> event list" where
  "handled it r s1 =
     (case r of
        None \<Rightarrow> (Continue, s1, [])
      | Some (OSError errno) \<Rightarrow>
          if errno = 110
          then (Continue, s1\<lparr>readings := refresh_weatherData (sensor it) (readings s1)\<rparr>,
                snd (display_weatherData (sensor it) (readings s1)))
          else (Continue, s1, [PrintExn ''OSError'' (OSError errno)])
      | Some OtherException \<Rightarrow>
          (case conn s1 of
             None \<Rightarrow> (Raise OtherException, s1, [PrintExn ''Exception'' OtherException])
           | Some c \<Rightarrow>
              (case handler_close_r it of
                 Some e \<Rightarrow> (Raise e, s1, [PrintExn ''Exception'' OtherException, ConnClose c])
               | None \<Rightarrow> (Continue, s1, [PrintExn ''Exception'' OtherException, ConnClose c,
                                          Print ''connection closed''])))
      | Some KeyboardInterrupt \<Rightarrow>
          (Stop, s1, [Print ''KeyboardInterrupt'', Print ''connection closed'']))"



section \<open>Concrete inputs\<close>

text \<open>A sensor that answers, one that is not connected, and one that fails on its second read.\<close>

definition sensor_ok :: sensor_tx where
  "sensor_ok = \<lparr>bme_init = None, bme_values = (\<lambda>k. Inr [''21.4C'', ''998.1hPa'', ''35.2%''])\<rparr>"

definition sensor_absent :: sensor_tx where
  "sensor_absent = \<lparr>bme_init = Some (OSError 5), bme_values = (\<lambda>k. Inl (OSError 5))\<rparr>"

definition sensor_flaky :: sensor_tx where
  "sensor_flaky =
     \<lparr>bme_init = None,
      bme_values = (\<lambda>k. if k = 0 then Inr [''21.4C'', ''998.1hPa'', ''35.2%''] else Inl (OSError 5))\<rparr>"

text \<open>The state of the loop after the display refresh of line 247 with a working sensor.\<close>

definition state0 :: state where
  "state0 =
     \<lparr>readings = \<lparr>temperature = ''21.4C'', pressure = ''998.1hPa'', humidity = ''35.2%''\<rparr>,
      conn = None\<rparr>"

text \<open>
  Passes of the loop: a request served without error; no client within 30 seconds; the
  read of the request timing out; the send of the header timing out (\<^verbatim>\<open>ETIMEDOUT\<close> is 110,
  the connection has a timeout of 3 seconds); the interrupt arriving during that send.
\<close>

definition pass_ok :: iteration where
  "pass_ok =
     \<lparr>accept_r = Inr 1, settimeout_r = None, recv_r = Inr ''GET / HTTP/1.1'',
      send_r = None, sendall_r = None, close_r = None, handler_close_r = None,
      sensor = sensor_ok\<rparr>"


definition pass_recv_timeout :: iteration where
  "pass_recv_timeout = pass_ok\<lparr>recv_r := Inl (OSError 110)\<rparr>"




definition pass_interrupted :: iteration where
  "pass_interrupted = pass_ok\<lparr>send_r := Some KeyboardInterrupt\<rparr>"

text \<open>
  The interrupt arriving during \<^verbatim>\<open>recv\<close>; and a send that raises an exception which is
  not an \<^verbatim>\<open>OSError\<close>, after which the \<^verbatim>\<open>conn.close()\<close> of the handler raises as well.
\<close>

definition pass_recv_interrupted :: iteration where
  "pass_recv_interrupted = pass_ok\<lparr>recv_r := Inl KeyboardInterrupt\<rparr>"

definition pass_double_fault :: iteration where
  "pass_double_fault =
     pass_ok\<lparr>send_r := Some OtherException, handler_close_r := Some (OSError 9)\<rparr>"


section \<open>Properties of the sensor reader and of the page\<close>

text \<open>The template, cut where the three data rows of the table begin and end.\<close>

lemma page_head_split:
  "page_head = take 1146 page_head @
     ''    <tr>\<newline>'' @ ''        <td>\<newline>'' @ ''            Temperature\<newline>''
     @ ''        </td>\<newline>'' @ ''        <td>\<newline>'' @ ''            ''
     @ ''<span class='' @ dq @ ''sensor'' @ dq @ ''>''"
  by (simp add: page_head_def dq_def sq_def)

lemma page_tail_split:
  "page_tail = ''</span></td>\<newline>'' @ ''    </tr> \<newline>'' @ drop 24 page_tail"
  by (simp add: page_tail_def)

lemma page_meta: "sublist meta_refresh page_head"
proof -
  have "page_head = take 708 page_head @ meta_refresh @ drop 748 page_head"
    by (simp add: page_head_def meta_refresh_def dq_def sq_def)
  then show ?thesis by (metis sublist_appendI)
qed

lemma web_page_rows:
  "web_page rs = take 1146 page_head
     @ (row_temperature (temperature rs) @ row_pressure (pressure rs) @ row_humidity (humidity rs))
     @ drop 24 page_tail"
proof -
  have "web_page rs = (take 1146 page_head @
     ''    <tr>\<newline>'' @ ''        <td>\<newline>'' @ ''            Temperature\<newline>''
     @ ''        </td>\<newline>'' @ ''        <td>\<newline>'' @ ''            ''
     @ ''<span class='' @ dq @ ''sensor'' @ dq @ ''>'') @ temperature rs @ page_mid1 @ pressure rs @ page_mid2 @ humidity rs @ (''</span></td>\<newline>'' @ ''    </tr> \<newline>'' @ drop 24 page_tail)"
    unfolding web_page_def using page_head_split page_tail_split by metis
  then show ?thesis
    by (simp add: row_temperature_def row_pressure_def row_humidity_def sensor_cell_def page_mid1_def page_mid2_def)
qed

lemma web_page_contains:
  "sublist meta_refresh (web_page rs)"
  "sublist (row_temperature (temperature rs) @ row_pressure (pressure rs) @ row_humidity (humidity rs))
     (web_page rs)"
proof -
  have "sublist meta_refresh (page_head @ temperature rs @ page_mid1 @ pressure rs @ page_mid2 @ humidity rs @ page_tail)"
    using page_meta by (meson sublist_order.order_trans sublist_append_rightI)
  then show "sublist meta_refresh (web_page rs)" by (simp add: web_page_def)
  show "sublist (row_temperature (temperature rs) @ row_pressure (pressure rs) @ row_humidity (humidity rs))
     (web_page rs)"
    by (subst web_page_rows) (rule sublist_appendI)
qed

lemma cell_in_row:
  "sublist (sensor_cell v) (row_temperature v)"
  "sublist (sensor_cell v) (row_pressure v)"
  "sublist (sensor_cell v) (row_humidity v)"
  unfolding row_temperature_def row_pressure_def row_humidity_def
  by (metis append.assoc sublist_appendI)+

text \<open>What \<^verbatim>\<open>refresh_weatherData\<close> leaves in the globals.\<close>

lemma refresh_weatherData_failure:
  "fst (refresh_body tx rs) = Some e \<Longrightarrow>
   refresh_weatherData tx rs = \<lparr>temperature = ''n/a'', pressure = ''n/a'', humidity = ''n/a''\<rparr>"
  by (auto simp: refresh_weatherData_def refresh_body_def Let_def split: option.splits sum.splits prod.splits)

lemma refresh_weatherData_success:
  "fst (refresh_body tx rs) = None \<Longrightarrow>
   \<exists>t p h. read_value tx 0 = Inr t \<and> read_value tx 1 = Inr p \<and> read_value tx 2 = Inr h \<and> 
   refresh_weatherData tx rs = \<lparr>temperature = t, pressure = p, humidity = h\<rparr>"
  by (auto simp: refresh_weatherData_def refresh_body_def Let_def split: option.splits sum.splits prod.splits)


lemma refresh_weatherData_independent:
  "refresh_weatherData tx rs = refresh_weatherData tx rs'"
  by (auto simp: refresh_weatherData_def refresh_body_def Let_def split: option.splits sum.splits prod.splits)

text \<open>
  Claim C1. Whenever an exception is raised during the sensor transaction (by the
  constructor, by any of the three reads of \<^verbatim>\<open>bme.values\<close> or by a subscript), whatever the
  exception, \<^verbatim>\<open>refresh_weatherData\<close> returns with all three fields equal to \<^verbatim>\<open>"n/a"\<close>: it
  is a total function to Reading Sets, no exception leaves it. The page built from that
  Reading Set holds the three data rows with \<^verbatim>\<open>n/a\<close> as the content of each value cell.
\<close>

theorem sensor_failure_gives_sentinel:
  assumes "fst (refresh_body tx rs) = Some e"
  shows "refresh_weatherData tx rs = \<lparr>temperature = ''n/a'', pressure = ''n/a'', humidity = ''n/a''\<rparr>
    \<and> sublist (row_temperature ''n/a'' @ row_pressure ''n/a'' @ row_humidity ''n/a'')
         (web_page (refresh_weatherData tx rs))
    \<and> sublist (sensor_cell ''n/a'') (row_temperature ''n/a'')
    \<and> sublist (sensor_cell ''n/a'') (row_pressure ''n/a'')
    \<and> sublist (sensor_cell ''n/a'') (row_humidity ''n/a'')"
proof -
  have r: "refresh_weatherData tx rs = \<lparr>temperature = ''n/a'', pressure = ''n/a'', humidity = ''n/a''\<rparr>"
    using refresh_weatherData_failure[OF assms] .
  show ?thesis using web_page_contains(2)[of "refresh_weatherData tx rs"] cell_in_row[of "''n/a''"]
    by (simp add: r)
qed

theorem sensor_failure_gives_sentinel_witness:
  "fst (refresh_body sensor_flaky initial_readings) = Some (OSError 5)
   \<and> snd (refresh_body sensor_flaky initial_readings)
       = \<lparr>temperature = ''21.4C'', pressure = [], humidity = []\<rparr>
   \<and> refresh_weatherData sensor_flaky initial_readings
       = \<lparr>temperature = ''n/a'', pressure = ''n/a'', humidity = ''n/a''\<rparr>"
  using sensor_failure_gives_sentinel[of sensor_flaky initial_readings "OSError 5"]
  by (simp add: sensor_flaky_def initial_readings_def refresh_body_def read_value_def subscript_def)

text \<open>
  Claim C4, as the code has it. The globals start as empty strings (lines 62 to 64), not
  as \<^verbatim>\<open>"n/a"\<close>.
\<close>

theorem initial_readings_not_sentinel:
  "temperature initial_readings \<noteq> ''n/a'' \<and> pressure initial_readings \<noteq> ''n/a''
   \<and> humidity initial_readings \<noteq> ''n/a''"
  by (simp add: initial_readings_def)

text \<open>
  Claim C4, amended. The Reading Set holds three strings. All three are empty at start-up.
  When \<^verbatim>\<open>refresh_weatherData\<close> returns, either all three fields are \<^verbatim>\<open>"n/a"\<close>, or the
  transaction raised nothing and the three fields are the values its three reads gave;
  nothing of the previous Reading Set is left in either case.
\<close>

theorem reading_set_all_or_nothing:
  "initial_readings = \<lparr>temperature = [], pressure = [], humidity = []\<rparr>
   \<and> refresh_weatherData tx rs = refresh_weatherData tx rs'
   \<and> (refresh_weatherData tx rs = \<lparr>temperature = ''n/a'', pressure = ''n/a'', humidity = ''n/a''\<rparr>
      \<or> (\<exists>t p h. bme_init tx = None \<and> read_value tx 0 = Inr t \<and> read_value tx 1 = Inr p
            \<and> read_value tx 2 = Inr h
            \<and> refresh_weatherData tx rs = \<lparr>temperature = t, pressure = p, humidity = h\<rparr>))"
proof -
  have "refresh_weatherData tx rs = \<lparr>temperature = ''n/a'', pressure = ''n/a'', humidity = ''n/a''\<rparr>
      \<or> (\<exists>t p h. bme_init tx = None \<and> read_value tx 0 = Inr t \<and> read_value tx 1 = Inr p
            \<and> read_value tx 2 = Inr h
            \<and> refresh_weatherData tx rs = \<lparr>temperature = t, pressure = p, humidity = h\<rparr>)"
    by (auto simp: refresh_weatherData_def refresh_body_def Let_def split: option.splits sum.splits)
  then show ?thesis using refresh_weatherData_independent[of tx rs rs'] by (simp add: initial_readings_def)
qed

theorem reading_set_all_or_nothing_witness:
  "initial_readings = \<lparr>temperature = [], pressure = [], humidity = []\<rparr>
   \<and> refresh_weatherData sensor_ok initial_readings
     = \<lparr>temperature = ''21.4C'', pressure = ''998.1hPa'', humidity = ''35.2%''\<rparr>
   \<and> refresh_weatherData sensor_absent initial_readings
     = \<lparr>temperature = ''n/a'', pressure = ''n/a'', humidity = ''n/a''\<rparr>"
proof -
  have a: "refresh_weatherData sensor_ok initial_readings
     = \<lparr>temperature = ''21.4C'', pressure = ''998.1hPa'', humidity = ''35.2%''\<rparr>"
    by (simp add: sensor_ok_def read_value_def subscript_def refresh_weatherData_def
        refresh_body_def initial_readings_def)
  have b: "refresh_weatherData sensor_absent initial_readings
     = \<lparr>temperature = ''n/a'', pressure = ''n/a'', humidity = ''n/a''\<rparr>"
    by (simp add: sensor_absent_def refresh_weatherData_def refresh_body_def initial_readings_def)
  have c: "initial_readings = \<lparr>temperature = [], pressure = [], humidity = []\<rparr>"
    using reading_set_all_or_nothing[of sensor_ok initial_readings initial_readings]
    by (rule conjunct1)
  show ?thesis using a b c by (intro conjI)
qed

section \<open>Properties of the network join\<close>

text \<open>
  The equation of \<open>wait_loop\<close> is recursive without a pattern: it is unfolded by hand,
  under the induction rule of the function.
\<close>

declare wait_loop.simps [simp del]





text \<open>
  The polls are bounded by 10, the calls of \<^verbatim>\<open>wlan.status()\<close> are not: each pass makes
  three of them, and the condition that ends the loop up to two more.
\<close>

lemma wait_loop_status: "length (filter is_status (snd (wait_loop st k w))) \<le> 3 * (10 - w) + 2"
proof (induction st k w rule: wait_loop.induct)
  case (1 st k wait)
  show ?case
    apply (subst wait_loop.simps)
    using 1 by (auto split: prod.splits)
qed















section \<open>Properties of the service loop\<close>

text \<open>What the body of the \<^verbatim>\<open>try\<close> returns, by the first call that raises.\<close>

lemma serve_body_accept_fail:
  "accept_r it = Inl e \<Longrightarrow>
   serve_body it s = (Some e, s, [Print ''waiting for connection...'', ServerAccept])"
  by (simp add: serve_body_def)

lemma serve_body_settimeout_fail:
  "accept_r it = Inr c \<Longrightarrow> settimeout_r it = Some e \<Longrightarrow>
   serve_body it s = (Some e, s\<lparr>conn := Some c\<rparr>,
     [Print ''waiting for connection...'', ServerAccept, Print ''connection from '',
      ConnSetTimeout c 3])"
  by (simp add: serve_body_def)

lemma serve_body_send_fail:
  "accept_r it = Inr c \<Longrightarrow> settimeout_r it = None \<Longrightarrow> send_r it = Some e \<Longrightarrow>
   serve_body it s = (Some e, s\<lparr>conn := Some c\<rparr>, served it c (readings s))"
  by (simp add: serve_body_def served_def Let_def)

lemma serve_body_sendall_fail:
  "accept_r it = Inr c \<Longrightarrow> settimeout_r it = None \<Longrightarrow> send_r it = None \<Longrightarrow>
   sendall_r it = Some e \<Longrightarrow>
   serve_body it s = (Some e, s\<lparr>conn := Some c\<rparr>,
     served it c (readings s) @ [Print ''sending html...'', SendAll c (web_page (readings s))])"
  by (simp add: serve_body_def served_def Let_def)

lemma serve_body_close:
  "accept_r it = Inr c \<Longrightarrow> settimeout_r it = None \<Longrightarrow> send_r it = None \<Longrightarrow>
   sendall_r it = None \<Longrightarrow>
   serve_body it s = (close_r it, s\<lparr>conn := Some c\<rparr>,
     served it c (readings s) @ [Print ''sending html...'', SendAll c (web_page (readings s)),
       Print ''closing connection'', ConnClose c])"
  by (cases "close_r it") (simp_all add: serve_body_def served_def Let_def)

lemma serve_body_cases:
  obtains
    (accept_fail) e where "accept_r it = Inl e"
  | (settimeout_fail) c e where "accept_r it = Inr c" "settimeout_r it = Some e"
  | (send_fail) c e where "accept_r it = Inr c" "settimeout_r it = None" "send_r it = Some e"
  | (sendall_fail) c e where "accept_r it = Inr c" "settimeout_r it = None" "send_r it = None"
      "sendall_r it = Some e"
  | (close) c where "accept_r it = Inr c" "settimeout_r it = None" "send_r it = None"
      "sendall_r it = None"
proof (cases "accept_r it")
  case (Inl e)
  then show ?thesis using accept_fail by blast
next
  case (Inr c)
  show ?thesis
  proof (cases "settimeout_r it")
    case (Some e)
    then show ?thesis using Inr settimeout_fail by blast
  next
    case None
    note st = this
    show ?thesis
    proof (cases "send_r it")
      case (Some e)
      then show ?thesis using Inr st send_fail by blast
    next
      case None
      then show ?thesis using Inr st sendall_fail close by (cases "sendall_r it") blast+
    qed
  qed
qed

lemmas serve_body_eqs = serve_body_accept_fail serve_body_settimeout_fail serve_body_send_fail
  serve_body_sendall_fail serve_body_close








text \<open>What a pass of the loop returns, by the handler that runs.\<close>

lemma loop_iteration_ok:
  "serve_body it s = (None, s1, ev) \<Longrightarrow> loop_iteration it s = (Continue, s1, ev)"
  by (simp add: loop_iteration_def)


lemma loop_iteration_oserror:
  "serve_body it s = (Some (OSError n), s1, ev) \<Longrightarrow> n \<noteq> 110 \<Longrightarrow>
   loop_iteration it s = (Continue, s1, ev @ [PrintExn ''OSError'' (OSError n)])"
  by (simp add: loop_iteration_def)

lemma loop_iteration_exception:
  "serve_body it s = (Some OtherException, s1, ev) \<Longrightarrow> conn s1 = Some c \<Longrightarrow>
   handler_close_r it = None \<Longrightarrow>
   loop_iteration it s =
     (Continue, s1, ev @ [PrintExn ''Exception'' OtherException, ConnClose c,
                          Print ''connection closed''])"
  by (simp add: loop_iteration_def)

lemma loop_iteration_exception_close_raises:
  "serve_body it s = (Some OtherException, s1, ev) \<Longrightarrow> conn s1 = Some c \<Longrightarrow>
   handler_close_r it = Some e \<Longrightarrow>
   loop_iteration it s =
     (Raise e, s1, ev @ [PrintExn ''Exception'' OtherException, ConnClose c])"
  by (simp add: loop_iteration_def)

lemma loop_iteration_exception_unbound:
  "serve_body it s = (Some OtherException, s1, ev) \<Longrightarrow> conn s1 = None \<Longrightarrow>
   loop_iteration it s = (Raise OtherException, s1, ev @ [PrintExn ''Exception'' OtherException])"
  by (simp add: loop_iteration_def)

lemma loop_iteration_interrupt:
  "serve_body it s = (Some KeyboardInterrupt, s1, ev) \<Longrightarrow>
   loop_iteration it s =
     (Stop, s1, ev @ [Print ''KeyboardInterrupt'', Print ''connection closed''])"
  by (simp add: loop_iteration_def)

lemma display_events:
  "snd (display_weatherData tx rs) =
     [Print ''updating display...'',
      DrawText 65 145 (temperature (refresh_weatherData tx rs) @ ''  ''),
      DrawText 107 145 (pressure (refresh_weatherData tx rs) @ ''  ''),
      DrawText 150 145 (humidity (refresh_weatherData tx rs) @ ''  '')]"
  by (simp add: display_weatherData_def Let_def dprint_def)



text \<open>
  Claim C9. On an accepted connection whose \<^verbatim>\<open>recv\<close> raises, whatever it raises, the pass
  still builds the page, sends the status line and headers, sends the body and closes the
  connection, and the loop goes on. (The sends and the close are taken to succeed: the
  claim is about the failed read.)
\<close>

theorem failed_request_read_still_answered:
  assumes "accept_r it = Inr c" and "settimeout_r it = None" and "recv_r it = Inl e"
    and "send_r it = None" and "sendall_r it = None" and "close_r it = None"
  shows "loop_iteration it s =
     (Continue, s\<lparr>conn := Some c\<rparr>,
      [Print ''waiting for connection...'', ServerAccept, Print ''connection from '',
       ConnSetTimeout c 3, Print ''receiving request...'', Recv c 1024,
       Print ''receiving request timed out'',
       Print ''getting web page'', Print (take 100 (web_page (readings s))),
       Print ''sending header...'', Send c http_header,
       Print ''sending html...'', SendAll c (web_page (readings s)),
       Print ''closing connection'', ConnClose c])"
proof -
  have "serve_body it s = (None, s\<lparr>conn := Some c\<rparr>,
     served it c (readings s) @ [Print ''sending html...'', SendAll c (web_page (readings s)),
       Print ''closing connection'', ConnClose c])"
    using serve_body_close[OF assms(1,2,4,5)] assms(6) by simp
  from loop_iteration_ok[OF this] show ?thesis by (simp add: served_def assms(3))
qed

theorem failed_request_read_still_answered_witness:
  "recv_r pass_recv_timeout = Inl (OSError 110)
   \<and> fst (loop_iteration pass_recv_timeout state0) = Continue
   \<and> device_calls (snd (snd (loop_iteration pass_recv_timeout state0))) =
       [ServerAccept, ConnSetTimeout 1 3, Recv 1 1024, Send 1 http_header,
        SendAll 1 (web_page (readings state0)), ConnClose 1]"
  using failed_request_read_still_answered[of pass_recv_timeout 1 "OSError 110" state0]
  by (simp add: pass_recv_timeout_def pass_ok_def device_calls_def)

text \<open>A pass is the body followed by the handlers.\<close>

lemma loop_iteration_handled:
  "loop_iteration it s =
     (case serve_body it s of (r, s1, ev) \<Rightarrow>
        (case handled it r s1 of (out, s2, h) \<Rightarrow> (out, s2, ev @ h)))"
  by (simp add: loop_iteration_def handled_def display_weatherData_def Let_def
      split: prod.splits option.splits exn.splits)

lemma handled_recv: "handled (it\<lparr>recv_r := x\<rparr>) r s1 = handled it r s1"
  by (simp add: handled_def split: option.splits exn.splits)


lemma payloads_append: "payloads (xs @ ys) = payloads xs @ payloads ys"
  by (induction xs rule: payloads.induct) auto

lemma payloads_handled: "payloads (snd (snd (handled it r s1))) = []"
  by (auto simp: handled_def display_events split: option.splits exn.splits if_splits)

lemma device_calls_append: "device_calls (xs @ ys) = device_calls xs @ device_calls ys"
  by (simp add: device_calls_def)

lemma device_calls_served:
  "device_calls (served it c rs) = [ServerAccept, ConnSetTimeout c 3, Recv c 1024, Send c http_header]"
  by (simp add: served_def device_calls_def split: sum.splits)

lemma payloads_served: "payloads (served it c rs) = [http_header]"
  by (simp add: served_def split: sum.splits)

lemma serve_body_recv:
  "fst (serve_body (it\<lparr>recv_r := x\<rparr>) s) = fst (serve_body it s)"
  "fst (snd (serve_body (it\<lparr>recv_r := x\<rparr>) s)) = fst (snd (serve_body it s))"
  "device_calls (snd (snd (serve_body (it\<lparr>recv_r := x\<rparr>) s)))
     = device_calls (snd (snd (serve_body it s)))"
  by (cases it rule: serve_body_cases; simp add: serve_body_eqs device_calls_append device_calls_served)+

lemma serve_body_payloads:
  "prefix (payloads (snd (snd (serve_body it s)))) [http_header, web_page (readings s)]"
  by (cases it rule: serve_body_cases)
     (simp_all add: serve_body_eqs payloads_append payloads_served)

lemma serve_body_payloads_sent:
  "accept_r it = Inr c \<Longrightarrow> settimeout_r it = None \<Longrightarrow> send_r it = None \<Longrightarrow>
   payloads (snd (snd (serve_body it s))) = [http_header, web_page (readings s)]"
  by (cases "sendall_r it")
     (simp_all add: serve_body_eqs payloads_append payloads_served)

lemma http_header_parts:
  "prefix (''HTTP/1.1 200 OK'' @ [CHR 0x0D, CHR 0x0A]) http_header"
  "suffix (''Content-type: text/html'' @ [CHR 0x0D, CHR 0x0A, CHR 0x0D, CHR 0x0A]) http_header"
  by (simp_all add: http_header_def suffix_def)

lemma loop_iteration_parts:
  "fst (loop_iteration it s) = fst (handled it (fst (serve_body it s)) (fst (snd (serve_body it s))))"
  "fst (snd (loop_iteration it s)) = fst (snd (handled it (fst (serve_body it s)) (fst (snd (serve_body it s)))))"
  "snd (snd (loop_iteration it s)) = snd (snd (serve_body it s))
      @ snd (snd (handled it (fst (serve_body it s)) (fst (snd (serve_body it s)))))"
  by (simp_all add: loop_iteration_handled split: prod.splits)

text \<open>
  Claim C6. What is sent on an accepted connection does not depend on the request, read or
  not: the outcome of the pass and its calls on the sockets are the same for every outcome
  of \<^verbatim>\<open>recv\<close>. The data sent is the header and then the page of the Reading Set, nothing
  else, and both in full when \<^verbatim>\<open>settimeout\<close>, \<^verbatim>\<open>send\<close> and \<^verbatim>\<open>sendall\<close> return. The header
  is the status line \<^verbatim>\<open>HTTP/1.1 200 OK\<close> followed by \<^verbatim>\<open>Content-type: text/html\<close> and an empty
  line. The page contains the 60-second refresh tag and, one after the other, the rows
  Temperature, Pressure and Humidity, each with its value of the Reading Set as the
  content of its cell. (The table has a heading row before them.)
\<close>

theorem response_ignores_request:
  "fst (loop_iteration (it\<lparr>recv_r := x\<rparr>) s) = fst (loop_iteration it s)
   \<and> device_calls (snd (snd (loop_iteration (it\<lparr>recv_r := x\<rparr>) s)))
       = device_calls (snd (snd (loop_iteration it s)))
   \<and> prefix (payloads (snd (snd (loop_iteration it s)))) [http_header, web_page (readings s)]
   \<and> (accept_r it = Inr c \<and> settimeout_r it = None \<and> send_r it = None \<and> sendall_r it = None
        \<longrightarrow> payloads (snd (snd (loop_iteration it s))) = [http_header, web_page (readings s)])
   \<and> prefix (''HTTP/1.1 200 OK'' @ [CHR 0x0D, CHR 0x0A]) http_header
   \<and> suffix (''Content-type: text/html'' @ [CHR 0x0D, CHR 0x0A, CHR 0x0D, CHR 0x0A]) http_header
   \<and> sublist meta_refresh (web_page (readings s))
   \<and> sublist (row_temperature (temperature (readings s)) @ row_pressure (pressure (readings s))
               @ row_humidity (humidity (readings s))) (web_page (readings s))"
  using serve_body_payloads[of it s] serve_body_payloads_sent[of it c s]
    http_header_parts web_page_contains[of "readings s"]
  by (simp add: loop_iteration_parts serve_body_recv handled_recv device_calls_append
      payloads_append payloads_handled)

theorem response_ignores_request_witness:
  "accept_r pass_ok = Inr 1
   \<and> payloads (snd (snd (loop_iteration pass_ok state0))) = [http_header, web_page (readings state0)]"
  using response_ignores_request[where it = pass_ok and x = "Inr []" and s = state0 and c = 1]
  by (simp add: pass_ok_def)





text \<open>
  Claim C3, on the code. The interrupt arrives while the header is sent on connection 1.
  The loop stops and the function closes the listening socket, disconnects the network and
  powers the radio down, in this order, but \<^verbatim>\<open>conn.close()\<close> is never called: the handler of
  \<^verbatim>\<open>KeyboardInterrupt\<close> only prints that the connection was closed.
\<close>

theorem interrupt_leaves_connection_open:
  "fst (run_display_and_webserver sensor_ok [pass_interrupted] initial_readings) = Returned
   \<and> device_calls (snd (snd (run_display_and_webserver sensor_ok [pass_interrupted] initial_readings)))
       = [ServerAccept, ConnSetTimeout 1 3, Recv 1 1024, Send 1 http_header,
          ServerClose, WlanDisconnect, WlanActive False]
   \<and> ConnClose 1 \<notin> set (snd (snd (run_display_and_webserver sensor_ok [pass_interrupted] initial_readings)))"
  by (simp add: run_display_and_webserver_def pass_interrupted_def pass_ok_def loop_iteration_def
      serve_body_def display_weatherData_def dprint_def Let_def server_setup_def shutdown_def
      device_calls_def)













text \<open>
  Two more traces of the code. An interrupt that arrives during \<^verbatim>\<open>conn.recv\<close> is caught by
  the bare \<^verbatim>\<open>except:\<close> of the inner \<^verbatim>\<open>try\<close>: the request is answered and the loop goes on. An
  exception raised by the \<^verbatim>\<open>conn.close()\<close> of the \<^verbatim>\<open>except Exception\<close> handler leaves the
  function: the loop ends and the lines after it do not run.
\<close>

lemma interrupt_during_recv_is_swallowed:
  "fst (loop_iteration pass_recv_interrupted state0) = Continue
   \<and> device_calls (snd (snd (loop_iteration pass_recv_interrupted state0))) =
       [ServerAccept, ConnSetTimeout 1 3, Recv 1 1024, Send 1 http_header,
        SendAll 1 (web_page (readings state0)), ConnClose 1]"
  by (simp add: pass_recv_interrupted_def pass_ok_def loop_iteration_def serve_body_def Let_def
      device_calls_def)

lemma handler_close_failure_ends_service:
  "fst (run_display_and_webserver sensor_ok [pass_double_fault, pass_ok] initial_readings)
     = Raised (OSError 9)
   \<and> device_calls (snd (snd (run_display_and_webserver sensor_ok [pass_double_fault, pass_ok]
         initial_readings))) =
       [ServerAccept, ConnSetTimeout 1 3, Recv 1 1024, Send 1 http_header, ConnClose 1]"
  by (simp add: run_display_and_webserver_def pass_double_fault_def pass_ok_def loop_iteration_def
      serve_body_def display_weatherData_def dprint_def Let_def server_setup_def device_calls_def)

end
